theory Spec2Isabelle
  imports Complex_Main
begin

section \<open>Learning-rate scaling for SGD under u-muP\<close>

text \<open>
  A shallow embedding of the two functions of \<^verbatim>\<open>analysis/sgd_scaling.ipynb\<close> that
  compute per-parameter learning rates:
  \<^item> \<^verbatim>\<open>gen_param_groups(model, base_lr, lr_mods)\<close>, which zips the parameters of a model
    against a hand-written list of multipliers, and
  \<^item> \<^verbatim>\<open>lr_scale_func_sgd(readout_constraint)\<close>, whose inner function maps a parameter
    to its learning-rate multiplier.

  Python floats are idealised as real numbers; \<^verbatim>\<open>**\<close> with a float exponent is
  \<open>powr\<close>. Every \<^verbatim>\<open>raise\<close> and failing \<^verbatim>\<open>assert\<close> is a value \<open>Inl e\<close>.
\<close>

subsection \<open>Errors\<close>

datatype py_error =
    AssertionError string
  | AttributeError
  | IndexError
  | ZeroDivisionError
  | ValueError

subsection \<open>Parameters and parameter groups\<close>

text \<open>
  What the scale function reads from a parameter tensor: \<^verbatim>\<open>param.mup_type\<close> and
  \<^verbatim>\<open>param.shape\<close>. \<open>mup_type p = None\<close> is a tensor that carries no such attribute
  (reading it raises \<^verbatim>\<open>AttributeError\<close>). The record is extensible: whatever else a
  tensor holds (its data, its depth annotation) lives in the \<open>more\<close> part.
\<close>

record param =
  mup_type :: "string option"
  shape :: "nat list"

text \<open>An optimizer group as the notebook builds it: \<^verbatim>\<open>{"params": [params], "lr": ...}\<close>.\<close>

record 'p param_group =
  params :: "'p list"
  lr :: real

subsection \<open>The group builder\<close>

text \<open>
  \<^verbatim>\<open>
  def gen_param_groups(model, base_lr, lr_mods):
      parameter_groups = []
      for params, lr_mod in zip(model.parameters(), lr_mods):
          parameter_groups.append({"params": [params], "lr": base_lr * lr_mod})
      return parameter_groups
  \<close>
  The model is the list \<^verbatim>\<open>model.parameters()\<close> yields. The loop ends as soon as either
  sequence is exhausted, as \<^verbatim>\<open>zip\<close> does.
\<close>

fun gen_param_groups_loop ::
  "real \<Rightarrow> 'p param_group list \<Rightarrow> 'p list \<Rightarrow> real list \<Rightarrow> 'p param_group list" where
  "gen_param_groups_loop base_lr parameter_groups (ps # model) (lr_mod # lr_mods) =
     gen_param_groups_loop base_lr
       (parameter_groups @ [\<lparr>params = [ps], lr = base_lr * lr_mod\<rparr>]) model lr_mods"
| "gen_param_groups_loop base_lr parameter_groups _ _ = parameter_groups"

definition gen_param_groups :: "'p list \<Rightarrow> real \<Rightarrow> real list \<Rightarrow> 'p param_group list" where
  "gen_param_groups model base_lr lr_mods = gen_param_groups_loop base_lr [] model lr_mods"

subsection \<open>The role scale function for SGD\<close>

text \<open>
  Python's \<^verbatim>\<open>n ** e\<close> for an integer \<open>n \<ge> 0\<close> and a float \<open>e\<close>: anything to the power
  zero is 1, and zero to a negative power raises \<^verbatim>\<open>ZeroDivisionError\<close>.
\<close>

definition py_pow :: "nat \<Rightarrow> real \<Rightarrow> py_error + real" where
  "py_pow n e =
     (if e = 0 then Inr 1
      else if n = 0 \<and> e < 0 then Inl ZeroDivisionError
      else Inr (real n powr e))"

text \<open>
  \<^verbatim>\<open>
  def lr_scale_func_sgd(readout_constraint: Optional[str]):
      def lr_scale_func_sgd_inner(param):
          scale = uu.optim.lr_scale_for_depth(param)
          if param.mup_type in ("bias", "norm"):
              return scale * param.shape[0]
          if param.mup_type == "weight":
              if readout_constraint is None:  # <<< NEW MODIFICATION
                  return scale * uu.optim._get_fan_in(param) ** -0.5
              elif readout_constraint == "to_output_scale":  # <<< existing case
                  return scale * uu.optim._get_fan_in(param) ** 0.5
              else:
                  assert False, f"Unhandled readout constraint: {readout_constraint}"
          if param.mup_type == "output":
              return scale
          assert False, f"Unexpected mup_type {param.mup_type}"
      return lr_scale_func_sgd_inner
  \<close>
  The library helpers \<^verbatim>\<open>uu.optim.lr_scale_for_depth\<close> and \<^verbatim>\<open>uu.optim._get_fan_in\<close> are
  not part of the analysed sources; they are the first two arguments of the model. Either
  may raise. A fan-in is a product of tensor dimensions, hence a natural number.
\<close>

definition lr_scale_func_sgd ::
  "('a param_scheme \<Rightarrow> py_error + real) \<Rightarrow> ('a param_scheme \<Rightarrow> py_error + nat) \<Rightarrow>
   string option \<Rightarrow> 'a param_scheme \<Rightarrow> py_error + real" where
  "lr_scale_func_sgd lr_scale_for_depth get_fan_in readout_constraint p =
    (case lr_scale_for_depth p of
       Inl e \<Rightarrow> Inl e
     | Inr scale \<Rightarrow>
        (case mup_type p of
           None \<Rightarrow> Inl AttributeError
         | Some t \<Rightarrow>
            if t \<in> set [''bias'', ''norm''] then
              (case shape p of
                 [] \<Rightarrow> Inl IndexError
               | n # _ \<Rightarrow> Inr (scale * real n))
            else if t = ''weight'' then
              (case readout_constraint of
                 None \<Rightarrow>
                   (case get_fan_in p of
                      Inl e \<Rightarrow> Inl e
                    | Inr fan_in \<Rightarrow>
                       (case py_pow fan_in (- 0.5) of
                          Inl e \<Rightarrow> Inl e
                        | Inr x \<Rightarrow> Inr (scale * x)))
               | Some c \<Rightarrow>
                   if c = ''to_output_scale'' then
                     (case get_fan_in p of
                        Inl e \<Rightarrow> Inl e
                      | Inr fan_in \<Rightarrow>
                         (case py_pow fan_in 0.5 of
                            Inl e \<Rightarrow> Inl e
                          | Inr x \<Rightarrow> Inr (scale * x)))
                   else Inl (AssertionError (''Unhandled readout constraint: '' @ c)))
            else if t = ''output'' then Inr scale
            else Inl (AssertionError (''Unexpected mup_type '' @ t))))"

subsection \<open>Concrete inputs\<close>

text \<open>
  Instances of the two helpers for evaluating the model: a parameter outside any residual
  stack has depth scale 1, and a two-dimensional weight of shape \<^verbatim>\<open>(out, in)\<close> has
  fan-in \<^verbatim>\<open>shape[1]\<close> (the notebook's own \<^verbatim>\<open>Linear\<close> initialises with
  \<^verbatim>\<open>self.weight.shape[1] ** -0.5\<close>, "1/sqrt(fan_in)").
\<close>

definition depth_scale_one :: "param \<Rightarrow> py_error + real" where
  "depth_scale_one p = Inr 1"

definition fan_in_2d :: "param \<Rightarrow> py_error + nat" where
  "fan_in_2d p = (case shape p of [_, n] \<Rightarrow> Inr n | _ \<Rightarrow> Inl ValueError)"

text \<open>
  The three weights of the notebook's \<^verbatim>\<open>ModelC(d_inp=5, d_hid=7, d_out=11)\<close>, a bias of
  width 7, a weight with a single input feature, and a tensor with an unknown role.
\<close>

definition w_inp :: param where
  "w_inp = \<lparr>mup_type = Some ''weight'', shape = [7, 5]\<rparr>"

definition w_hid :: param where
  "w_hid = \<lparr>mup_type = Some ''weight'', shape = [7, 7]\<rparr>"

definition w_out :: param where
  "w_out = \<lparr>mup_type = Some ''output'', shape = [11, 7]\<rparr>"

definition b_hid :: param where
  "b_hid = \<lparr>mup_type = Some ''bias'', shape = [7]\<rparr>"

definition w_scalar_in :: param where
  "w_scalar_in = \<lparr>mup_type = Some ''weight'', shape = [7, 1]\<rparr>"

definition w_embedding :: param where
  "w_embedding = \<lparr>mup_type = Some ''embedding'', shape = [11, 7]\<rparr>"

subsection \<open>The learning-rate tables of the notebook\<close>

text \<open>
  The multipliers the notebook passes to \<^verbatim>\<open>gen_param_groups\<close> for \<^verbatim>\<open>ModelC\<close>: first the
  table that breaks the equivalence with mup's SGD,
  \<^verbatim>\<open>lr_mods=(d_inp**0.5 * d_hid, d_hid**0.5, 1)\<close>, then the table that restores it,
  \<^verbatim>\<open>lr_mods=(d_inp**0.5 * d_out**0.5, d_hid**-0.5 * d_out**0.5, 1)\<close>. The widths are
  arguments; each power is Python's, so the second table raises at \<open>d_hid = 0\<close>.
\<close>

definition lr_mods_c :: "nat \<Rightarrow> nat \<Rightarrow> nat \<Rightarrow> py_error + real list" where
  "lr_mods_c d_inp d_hid d_out =
     (case py_pow d_inp 0.5 of
        Inl e \<Rightarrow> Inl e
      | Inr a \<Rightarrow>
         (case py_pow d_hid 0.5 of
            Inl e \<Rightarrow> Inl e
          | Inr b \<Rightarrow> Inr [a * real d_hid, b, 1]))"

definition lr_mods_c2 :: "nat \<Rightarrow> nat \<Rightarrow> nat \<Rightarrow> py_error + real list" where
  "lr_mods_c2 d_inp d_hid d_out =
     (case py_pow d_inp 0.5 of
        Inl e \<Rightarrow> Inl e
      | Inr a \<Rightarrow>
         (case py_pow d_out 0.5 of
            Inl e \<Rightarrow> Inl e
          | Inr b \<Rightarrow>
             (case py_pow d_hid (- 0.5) of
                Inl e \<Rightarrow> Inl e
              | Inr c \<Rightarrow>
                 (case py_pow d_out 0.5 of
                    Inl e \<Rightarrow> Inl e
                  | Inr b' \<Rightarrow> Inr [a * b, c * b', 1]))))"

section \<open>Properties of the role scale function\<close>

text \<open>
  Claim C3. For a parameter with role \<^verbatim>\<open>bias\<close> or \<^verbatim>\<open>norm\<close> that has a single dimension of
  \<open>n\<close> elements, the SGD scale function returns the depth scale of the parameter
  multiplied by \<open>n\<close>, whatever the readout constraint and the fan-in helper are.
\<close>

theorem lr_scale_func_sgd_bias_norm:
  assumes "mup_type p = Some ''bias'' \<or> mup_type p = Some ''norm''"
    and "shape p = [n]"
    and "lr_scale_for_depth p = Inr scale"
  shows "lr_scale_func_sgd lr_scale_for_depth get_fan_in readout_constraint p
         = Inr (scale * real n)"
  using assms by (auto simp: lr_scale_func_sgd_def)

theorem lr_scale_func_sgd_bias_norm_witness:
  "(mup_type b_hid = Some ''bias'' \<or> mup_type b_hid = Some ''norm'')
   \<and> shape b_hid = [7]
   \<and> depth_scale_one b_hid = Inr 1
   \<and> lr_scale_func_sgd depth_scale_one fan_in_2d None b_hid = Inr 7"
proof -
  have r: "mup_type b_hid = Some ''bias'' \<or> mup_type b_hid = Some ''norm''"
    by (simp add: b_hid_def)
  have s: "shape b_hid = [7]"
    by (simp add: b_hid_def)
  have d: "depth_scale_one b_hid = Inr 1"
    by (simp add: depth_scale_one_def)
  from lr_scale_func_sgd_bias_norm
      [where p = b_hid and lr_scale_for_depth = depth_scale_one and get_fan_in = fan_in_2d
         and readout_constraint = None, OF r s d] r s d
  show ?thesis by simp
qed

text \<open>
  Claim C4. For a parameter with role \<^verbatim>\<open>output\<close> the SGD scale function returns exactly
  the depth scale of the parameter: the result depends neither on the shape, nor on the
  fan-in helper, nor on the readout constraint.
\<close>

theorem lr_scale_func_sgd_output:
  assumes "mup_type p = Some ''output''"
    and "lr_scale_for_depth p = Inr scale"
  shows "lr_scale_func_sgd lr_scale_for_depth get_fan_in readout_constraint p = Inr scale"
  using assms by (simp add: lr_scale_func_sgd_def)

theorem lr_scale_func_sgd_output_witness:
  "mup_type w_out = Some ''output''
   \<and> depth_scale_one w_out = Inr 1
   \<and> lr_scale_func_sgd depth_scale_one fan_in_2d None w_out = Inr 1
   \<and> lr_scale_func_sgd depth_scale_one fan_in_2d (Some ''to_output_scale'') w_out = Inr 1"
proof -
  have r: "mup_type w_out = Some ''output''"
    by (simp add: w_out_def)
  have d: "depth_scale_one w_out = Inr 1"
    by (simp add: depth_scale_one_def)
  from lr_scale_func_sgd_output
      [where p = w_out and lr_scale_for_depth = depth_scale_one and get_fan_in = fan_in_2d
         and readout_constraint = None, OF r d]
    lr_scale_func_sgd_output
      [where p = w_out and lr_scale_for_depth = depth_scale_one and get_fan_in = fan_in_2d
         and readout_constraint = "Some ''to_output_scale''", OF r d] r d
  show ?thesis by simp
qed

text \<open>
  Claim C1, as stated, fails on the hidden weight of the notebook's model (fan-in 7, depth
  scale 1): with no readout constraint the function does not return \<open>1 * 7 powr 0.5\<close>,
  and with \<^verbatim>\<open>"to_output_scale"\<close> it does not return \<open>1 * 7 powr (- 0.5)\<close>.
\<close>

theorem lr_scale_func_sgd_weight_counterexample:
  "mup_type w_hid = Some ''weight''
   \<and> depth_scale_one w_hid = Inr 1
   \<and> fan_in_2d w_hid = Inr 7
   \<and> lr_scale_func_sgd depth_scale_one fan_in_2d None w_hid \<noteq> Inr (1 * real 7 powr 0.5)
   \<and> lr_scale_func_sgd depth_scale_one fan_in_2d (Some ''to_output_scale'') w_hid
       \<noteq> Inr (1 * real 7 powr (- 0.5))"
  by (simp add: lr_scale_func_sgd_def depth_scale_one_def fan_in_2d_def w_hid_def py_pow_def
      powr_inj)

text \<open>
  Claim C1, amended. For a parameter with role \<^verbatim>\<open>weight\<close> and a positive fan-in, the SGD
  scale function returns the depth scale times the fan-in raised to the power \<open>e\<close>, where
  \<open>e\<close> is exactly \<open>-0.5\<close> when there is no readout constraint (\<^verbatim>\<open>None\<close>) and exactly
  \<open>+0.5\<close> when the readout constraint is \<^verbatim>\<open>"to_output_scale"\<close>.
\<close>

theorem lr_scale_func_sgd_weight:
  assumes "mup_type p = Some ''weight''"
    and "lr_scale_for_depth p = Inr scale"
    and "get_fan_in p = Inr fan_in"
    and "0 < fan_in"
  shows "lr_scale_func_sgd lr_scale_for_depth get_fan_in None p
           = Inr (scale * real fan_in powr (- 0.5))
       \<and> lr_scale_func_sgd lr_scale_for_depth get_fan_in (Some ''to_output_scale'') p
           = Inr (scale * real fan_in powr 0.5)"
  using assms by (simp add: lr_scale_func_sgd_def py_pow_def)

theorem lr_scale_func_sgd_weight_witness:
  "mup_type w_hid = Some ''weight''
   \<and> depth_scale_one w_hid = Inr 1
   \<and> fan_in_2d w_hid = Inr 7
   \<and> (0::nat) < 7
   \<and> lr_scale_func_sgd depth_scale_one fan_in_2d None w_hid = Inr (1 * real 7 powr (- 0.5))
   \<and> lr_scale_func_sgd depth_scale_one fan_in_2d (Some ''to_output_scale'') w_hid
       = Inr (1 * real 7 powr 0.5)"
proof -
  have r: "mup_type w_hid = Some ''weight''"
    by (simp add: w_hid_def)
  have d: "depth_scale_one w_hid = Inr 1"
    by (simp add: depth_scale_one_def)
  have f: "fan_in_2d w_hid = Inr 7"
    by (simp add: fan_in_2d_def w_hid_def)
  have pos: "(0::nat) < 7"
    by simp
  from lr_scale_func_sgd_weight
      [where p = w_hid and lr_scale_for_depth = depth_scale_one and get_fan_in = fan_in_2d,
        OF r d f pos] r d f
  show ?thesis by simp
qed

text \<open>
  Claim C5, as stated, fails on a weight with a single input feature (fan-in 1): the
  multiplier is 1 under both readout constraints, so the choice changes nothing for this
  weight-role parameter.
\<close>

theorem readout_constraint_effect_counterexample:
  "mup_type w_scalar_in = Some ''weight''
   \<and> lr_scale_func_sgd depth_scale_one fan_in_2d None w_scalar_in = Inr 1
   \<and> lr_scale_func_sgd depth_scale_one fan_in_2d (Some ''to_output_scale'') w_scalar_in = Inr 1"
  by (simp add: lr_scale_func_sgd_def depth_scale_one_def fan_in_2d_def w_scalar_in_def
      py_pow_def)

text \<open>
  Claim C5, amended. Changing the readout constraint between \<^verbatim>\<open>None\<close> and
  \<^verbatim>\<open>"to_output_scale"\<close> changes the multiplier of every weight-role parameter \<open>p\<close> whose
  fan-in is greater than 1 and whose depth scale is not zero; the result for a bias-,
  norm- or output-role parameter \<open>q\<close> is the same under any two readout constraints.
\<close>

theorem readout_constraint_effect:
  assumes "mup_type p = Some ''weight''"
    and "lr_scale_for_depth p = Inr scale"
    and "scale \<noteq> 0"
    and "get_fan_in p = Inr fan_in"
    and "1 < fan_in"
    and "mup_type q \<in> {Some ''bias'', Some ''norm'', Some ''output''}"
  shows "lr_scale_func_sgd lr_scale_for_depth get_fan_in None p
           \<noteq> lr_scale_func_sgd lr_scale_for_depth get_fan_in (Some ''to_output_scale'') p
       \<and> lr_scale_func_sgd lr_scale_for_depth get_fan_in readout_constraint q
           = lr_scale_func_sgd lr_scale_for_depth get_fan_in readout_constraint' q"
proof
  have "real fan_in powr (- 0.5) \<noteq> real fan_in powr 0.5"
    using \<open>1 < fan_in\<close> by (simp add: powr_inj)
  with assms(1-5)
  show "lr_scale_func_sgd lr_scale_for_depth get_fan_in None p
          \<noteq> lr_scale_func_sgd lr_scale_for_depth get_fan_in (Some ''to_output_scale'') p"
    by (simp add: lr_scale_func_sgd_def py_pow_def)
next
  from assms(6)
  show "lr_scale_func_sgd lr_scale_for_depth get_fan_in readout_constraint q
          = lr_scale_func_sgd lr_scale_for_depth get_fan_in readout_constraint' q"
    by (auto simp: lr_scale_func_sgd_def split: sum.splits)
qed

theorem readout_constraint_effect_witness:
  "mup_type w_hid = Some ''weight''
   \<and> depth_scale_one w_hid = Inr 1
   \<and> (1::real) \<noteq> 0
   \<and> fan_in_2d w_hid = Inr 7
   \<and> (1::nat) < 7
   \<and> mup_type b_hid \<in> {Some ''bias'', Some ''norm'', Some ''output''}
   \<and> lr_scale_func_sgd depth_scale_one fan_in_2d None w_hid
       \<noteq> lr_scale_func_sgd depth_scale_one fan_in_2d (Some ''to_output_scale'') w_hid
   \<and> lr_scale_func_sgd depth_scale_one fan_in_2d None b_hid
       = lr_scale_func_sgd depth_scale_one fan_in_2d (Some ''to_output_scale'') b_hid"
proof -
  have r: "mup_type w_hid = Some ''weight''"
    by (simp add: w_hid_def)
  have d: "depth_scale_one w_hid = Inr 1"
    by (simp add: depth_scale_one_def)
  have nz: "(1::real) \<noteq> 0"
    by simp
  have f: "fan_in_2d w_hid = Inr 7"
    by (simp add: fan_in_2d_def w_hid_def)
  have wide: "(1::nat) < 7"
    by simp
  have rq: "mup_type b_hid \<in> {Some ''bias'', Some ''norm'', Some ''output''}"
    by (simp add: b_hid_def)
  from readout_constraint_effect
      [where p = w_hid and q = b_hid and lr_scale_for_depth = depth_scale_one
         and get_fan_in = fan_in_2d and readout_constraint = None
         and readout_constraint' = "Some ''to_output_scale''", OF r d nz f wide rq]
    r d f rq
  show ?thesis by simp
qed

text \<open>
  Claim C7. For a parameter whose role is none of \<^verbatim>\<open>weight\<close>, \<^verbatim>\<open>bias\<close>, \<^verbatim>\<open>norm\<close>,
  \<^verbatim>\<open>output\<close> (an unknown role string, or no role attribute at all) the SGD scale function
  raises: it returns no multiplier, whatever the helpers and the readout constraint are.
\<close>

theorem lr_scale_func_sgd_unexpected_mup_type:
  assumes "mup_type p \<notin> {Some ''weight'', Some ''bias'', Some ''norm'', Some ''output''}"
  shows "\<exists>e. lr_scale_func_sgd lr_scale_for_depth get_fan_in readout_constraint p = Inl e"
  using assms by (auto simp: lr_scale_func_sgd_def split: sum.splits option.splits)

theorem lr_scale_func_sgd_unexpected_mup_type_witness:
  "mup_type w_embedding \<notin> {Some ''weight'', Some ''bias'', Some ''norm'', Some ''output''}
   \<and> (\<exists>e. lr_scale_func_sgd depth_scale_one fan_in_2d None w_embedding = Inl e)
   \<and> lr_scale_func_sgd depth_scale_one fan_in_2d None w_embedding
       = Inl (AssertionError ''Unexpected mup_type embedding'')"
proof -
  have r: "mup_type w_embedding
             \<notin> {Some ''weight'', Some ''bias'', Some ''norm'', Some ''output''}"
    by (simp add: w_embedding_def)
  have v: "lr_scale_func_sgd depth_scale_one fan_in_2d None w_embedding
             = Inl (AssertionError ''Unexpected mup_type embedding'')"
    by (simp add: lr_scale_func_sgd_def depth_scale_one_def w_embedding_def)
  from lr_scale_func_sgd_unexpected_mup_type
      [where p = w_embedding and lr_scale_for_depth = depth_scale_one
         and get_fan_in = fan_in_2d and readout_constraint = None, OF r] r v
  show ?thesis by simp
qed

text \<open>
  Claim C8, as stated, fails on the readout weight of the notebook's model: with the
  unknown readout constraint \<^verbatim>\<open>"bogus"\<close> the scale function raises nothing for this
  output-role parameter and returns the multiplier 1.
\<close>

theorem unhandled_readout_constraint_counterexample:
  "mup_type w_out = Some ''output''
   \<and> lr_scale_func_sgd depth_scale_one fan_in_2d (Some ''bogus'') w_out = Inr 1"
  by (simp add: lr_scale_func_sgd_def depth_scale_one_def w_out_def)

text \<open>
  Claim C8, amended. For every weight-role parameter \<open>p\<close>, a readout constraint other than
  \<^verbatim>\<open>None\<close> and \<^verbatim>\<open>"to_output_scale"\<close> makes the SGD scale function raise instead of
  returning a multiplier. For a bias-, norm- or output-role parameter \<open>q\<close> the constraint is
  not inspected: the function gives the same result under any two readout constraints,
  valid or not.
\<close>

theorem unhandled_readout_constraint:
  assumes "mup_type p = Some ''weight''"
    and "c \<noteq> ''to_output_scale''"
    and "mup_type q \<in> {Some ''bias'', Some ''norm'', Some ''output''}"
  shows "(\<exists>e. lr_scale_func_sgd lr_scale_for_depth get_fan_in (Some c) p = Inl e)
       \<and> lr_scale_func_sgd lr_scale_for_depth get_fan_in readout_constraint q
           = lr_scale_func_sgd lr_scale_for_depth get_fan_in readout_constraint' q"
proof
  from assms(1,2)
  show "\<exists>e. lr_scale_func_sgd lr_scale_for_depth get_fan_in (Some c) p = Inl e"
    by (auto simp: lr_scale_func_sgd_def split: sum.splits)
next
  from assms(3)
  show "lr_scale_func_sgd lr_scale_for_depth get_fan_in readout_constraint q
          = lr_scale_func_sgd lr_scale_for_depth get_fan_in readout_constraint' q"
    by (auto simp: lr_scale_func_sgd_def split: sum.splits)
qed

theorem unhandled_readout_constraint_witness:
  "mup_type w_hid = Some ''weight''
   \<and> ''bogus'' \<noteq> ''to_output_scale''
   \<and> mup_type w_out \<in> {Some ''bias'', Some ''norm'', Some ''output''}
   \<and> (\<exists>e. lr_scale_func_sgd depth_scale_one fan_in_2d (Some ''bogus'') w_hid = Inl e)
   \<and> lr_scale_func_sgd depth_scale_one fan_in_2d (Some ''bogus'') w_hid
       = Inl (AssertionError ''Unhandled readout constraint: bogus'')
   \<and> lr_scale_func_sgd depth_scale_one fan_in_2d (Some ''bogus'') w_out
       = lr_scale_func_sgd depth_scale_one fan_in_2d None w_out"
proof -
  have r: "mup_type w_hid = Some ''weight''"
    by (simp add: w_hid_def)
  have c: "''bogus'' \<noteq> ''to_output_scale''"
    by simp
  have rq: "mup_type w_out \<in> {Some ''bias'', Some ''norm'', Some ''output''}"
    by (simp add: w_out_def)
  have v: "lr_scale_func_sgd depth_scale_one fan_in_2d (Some ''bogus'') w_hid
             = Inl (AssertionError ''Unhandled readout constraint: bogus'')"
    by (simp add: lr_scale_func_sgd_def depth_scale_one_def w_hid_def)
  from unhandled_readout_constraint
      [where p = w_hid and c = "''bogus''" and q = w_out
         and lr_scale_for_depth = depth_scale_one and get_fan_in = fan_in_2d
         and readout_constraint = "Some ''bogus''" and readout_constraint' = None,
        OF r c rq] r c rq v
  show ?thesis by simp
qed

section \<open>Properties of the group builder\<close>

text \<open>The loop appends one group per zipped pair to what it has accumulated.\<close>

lemma gen_param_groups_loop_acc:
  "gen_param_groups_loop base_lr acc model lr_mods =
     acc @ map (\<lambda>(ps, lr_mod). \<lparr>params = [ps], lr = base_lr * lr_mod\<rparr>) (zip model lr_mods)"
  by (induction base_lr acc model lr_mods rule: gen_param_groups_loop.induct) auto

lemma gen_param_groups_zip:
  "gen_param_groups model base_lr lr_mods =
     map (\<lambda>(ps, lr_mod). \<lparr>params = [ps], lr = base_lr * lr_mod\<rparr>) (zip model lr_mods)"
  by (simp add: gen_param_groups_def gen_param_groups_loop_acc)

lemma params_gen_param_groups:
  "map params (gen_param_groups model base_lr lr_mods) =
     map (\<lambda>ps. [ps]) (take (length lr_mods) model)"
proof -
  have "map params (gen_param_groups model base_lr lr_mods) =
          map (\<lambda>ps. [ps]) (map fst (zip model lr_mods))"
    by (simp add: gen_param_groups_zip case_prod_unfold comp_def)
  also have "map fst (zip model lr_mods) = take (length lr_mods) model"
    by (simp add: map_fst_zip_take min_def)
  finally show ?thesis .
qed

lemma lr_gen_param_groups:
  "map lr (gen_param_groups model base_lr lr_mods) =
     map (\<lambda>lr_mod. base_lr * lr_mod) (take (length model) lr_mods)"
proof -
  have "map lr (gen_param_groups model base_lr lr_mods) =
          map (\<lambda>lr_mod. base_lr * lr_mod) (map snd (zip model lr_mods))"
    by (simp add: gen_param_groups_zip case_prod_unfold comp_def)
  also have "map snd (zip model lr_mods) = take (length model) lr_mods"
    by (simp add: map_snd_zip_take min_def)
  finally show ?thesis .
qed

lemma concat_singletons: "concat (map (\<lambda>x. [x]) xs) = xs"
  by (induction xs) auto

lemma members_gen_param_groups:
  "concat (map params (gen_param_groups model base_lr lr_mods)) = take (length lr_mods) model"
  by (simp add: params_gen_param_groups concat_singletons)

text \<open>
  Claim C6, as stated, fails when the multipliers run out first: for the three weights of
  the notebook's model and two multipliers, two groups are emitted and the readout weight
  is in neither.
\<close>

theorem gen_param_groups_partition_counterexample:
  "length (gen_param_groups [w_inp, w_hid, w_out] (1 / 10) [2, 3]) = 2
   \<and> w_out \<notin> set (concat (map params (gen_param_groups [w_inp, w_hid, w_out] (1 / 10) [2, 3])))"
  by (simp add: gen_param_groups_def w_inp_def w_hid_def w_out_def)

text \<open>
  Claim C6, amended. Whenever there are at least as many multipliers as parameters, the
  builder emits, in order, one singleton group per parameter, the group of the \<open>i\<close>-th
  parameter has \<open>lr = base_lr * lr_mods[i]\<close>, and the members of all groups taken together
  are exactly the input parameter sequence: every parameter once, none left out.
\<close>

theorem gen_param_groups_partition:
  assumes "length model \<le> length lr_mods"
  shows "map params (gen_param_groups model base_lr lr_mods) = map (\<lambda>ps. [ps]) model
       \<and> map lr (gen_param_groups model base_lr lr_mods)
           = map (\<lambda>lr_mod. base_lr * lr_mod) (take (length model) lr_mods)
       \<and> concat (map params (gen_param_groups model base_lr lr_mods)) = model"
  using assms
  by (simp add: params_gen_param_groups lr_gen_param_groups members_gen_param_groups)

theorem gen_param_groups_partition_witness:
  "length [w_inp, w_hid, w_out] \<le> length [2, 3, 1 :: real]
   \<and> map params (gen_param_groups [w_inp, w_hid, w_out] (1 / 10) [2, 3, 1])
       = [[w_inp], [w_hid], [w_out]]
   \<and> map lr (gen_param_groups [w_inp, w_hid, w_out] (1 / 10) [2, 3, 1]) = [2 / 10, 3 / 10, 1 / 10]
   \<and> concat (map params (gen_param_groups [w_inp, w_hid, w_out] (1 / 10) [2, 3, 1]))
       = [w_inp, w_hid, w_out]"
proof -
  have l: "length [w_inp, w_hid, w_out] \<le> length [2, 3, 1 :: real]"
    by simp
  from gen_param_groups_partition [OF l, of "1 / 10"] l
  show ?thesis by simp
qed

text \<open>
  Claim C10. When the multiplier list is shorter than the list of (pairwise different)
  parameters, the builder still returns: it emits exactly one singleton group for each of
  the first \<open>length lr_mods\<close> parameters, at least one parameter is left over, and no
  left-over parameter is a member of any emitted group.
\<close>

theorem gen_param_groups_short_lr_mods:
  assumes "length lr_mods < length model"
    and "distinct model"
  shows "length (gen_param_groups model base_lr lr_mods) = length lr_mods
       \<and> map params (gen_param_groups model base_lr lr_mods)
           = map (\<lambda>ps. [ps]) (take (length lr_mods) model)
       \<and> drop (length lr_mods) model \<noteq> []
       \<and> set (drop (length lr_mods) model)
           \<inter> set (concat (map params (gen_param_groups model base_lr lr_mods))) = {}"
proof -
  have "length (gen_param_groups model base_lr lr_mods) = length lr_mods"
    using assms(1) by (simp add: gen_param_groups_zip)
  moreover have "drop (length lr_mods) model \<noteq> []"
    using assms(1) by simp
  moreover have "set (drop (length lr_mods) model) \<inter> set (take (length lr_mods) model) = {}"
    using assms(2) by (metis append_take_drop_id distinct_append inf_commute)
  ultimately show ?thesis
    by (simp add: params_gen_param_groups members_gen_param_groups)
qed

theorem gen_param_groups_short_lr_mods_witness:
  "length [2, 3 :: real] < length [w_inp, w_hid, w_out]
   \<and> distinct [w_inp, w_hid, w_out]
   \<and> length (gen_param_groups [w_inp, w_hid, w_out] (1 / 10) [2, 3]) = 2
   \<and> map params (gen_param_groups [w_inp, w_hid, w_out] (1 / 10) [2, 3]) = [[w_inp], [w_hid]]
   \<and> drop 2 [w_inp, w_hid, w_out] = [w_out]
   \<and> set [w_out] \<inter> set (concat (map params (gen_param_groups [w_inp, w_hid, w_out] (1 / 10) [2, 3])))
       = {}"
proof -
  have l: "length [2, 3 :: real] < length [w_inp, w_hid, w_out]"
    by simp
  have d: "distinct [w_inp, w_hid, w_out]"
    by (simp add: w_inp_def w_hid_def w_out_def)
  have dr: "drop 2 [w_inp, w_hid, w_out] = [w_out]"
    by simp
  from gen_param_groups_short_lr_mods [OF l d, of "1 / 10"] l d dr
  show ?thesis by simp
qed

section \<open>The corrected table\<close>

text \<open>
  The notebook obtains the second table of \<^verbatim>\<open>ModelC\<close> from the first by multiplying the two
  weight multipliers by \<open>sqrt(d_out) / d_hid\<close>; the readout multiplier stays 1.
\<close>

lemma powr_half_div_self:
  assumes "0 < (x::real)"
  shows "x powr 0.5 / x = x powr (- 0.5)"
proof -
  have "x powr 0.5 / x = x powr 0.5 / x powr 1"
    using assms by simp
  also have "\<dots> = x powr (0.5 - 1)"
    by (simp only: powr_diff)
  finally show ?thesis by simp
qed

lemma lr_mods_c_value:
  "lr_mods_c d_inp d_hid d_out
     = Inr [real d_inp powr 0.5 * real d_hid, real d_hid powr 0.5, 1]"
  by (simp add: lr_mods_c_def py_pow_def)

lemma lr_mods_c2_value:
  assumes "0 < d_hid"
  shows "lr_mods_c2 d_inp d_hid d_out
     = Inr [real d_inp powr 0.5 * real d_out powr 0.5,
            real d_hid powr (- 0.5) * real d_out powr 0.5, 1]"
  using assms by (simp add: lr_mods_c2_def py_pow_def)

lemma lr_mods_c2_zero_width:
  "lr_mods_c2 d_inp 0 d_out = Inl ZeroDivisionError"
  by (simp add: lr_mods_c2_def py_pow_def)

lemma lr_mods_c2_from_lr_mods_c:
  assumes "0 < d_hid"
  shows "lr_mods_c2 d_inp d_hid d_out =
           map_sum id
             (\<lambda>ms. map2 (*) ms
                [real d_out powr 0.5 / real d_hid, real d_out powr 0.5 / real d_hid, 1])
             (lr_mods_c d_inp d_hid d_out)"
proof -
  have h: "real d_hid powr 0.5 / real d_hid = real d_hid powr (- 0.5)"
    using assms by (intro powr_half_div_self) simp
  have "real d_hid powr 0.5 * (real d_out powr 0.5 / real d_hid)
          = (real d_hid powr 0.5 / real d_hid) * real d_out powr 0.5"
    by simp
  also have "\<dots> = real d_hid powr (- 0.5) * real d_out powr 0.5"
    by (simp only: h)
  finally have w: "real d_hid powr 0.5 * (real d_out powr 0.5 / real d_hid)
                     = real d_hid powr (- 0.5) * real d_out powr 0.5" .
  have "lr_mods_c2 d_inp d_hid d_out =
          Inr [real d_inp powr 0.5 * real d_hid * (real d_out powr 0.5 / real d_hid),
               real d_hid powr 0.5 * (real d_out powr 0.5 / real d_hid), 1]"
    unfolding w using assms by (simp add: lr_mods_c2_value)
  then show ?thesis
    by (simp add: lr_mods_c_value)
qed

end
